theory Spec2Isabelle
  imports Complex_Main "HOL-Library.Word"
begin

unbundle bit_operations_syntax

section \<open>The microcontroller seen by the sketches\<close>

text \<open>
  The repository holds two revisions of one Arduino sketch for the ATmega328P:
  \<^verbatim>\<open>MC6850.ino\<close> (the first revision) and \<^verbatim>\<open>6850.ino\<close> (the documented revision with the
  test string in program memory and a status LED). Both drive a 6850 ACIA over twelve
  software-toggled lines and program Timer2 to emit the baud clock.

  A pin is named the way the sketches name it: a digital pin number, or one of the
  analog-header pins \<^verbatim>\<open>A0\<close> .. \<^verbatim>\<open>A3\<close>.
\<close>

datatype pin = Digital nat | Analog nat

datatype pin_mode = INPUT | OUTPUT | INPUT_PULLUP

datatype level = Low | High

datatype timer_reg = Reg_TCCR2A | Reg_TCCR2B | Reg_OCR2A

text \<open>
  Everything a sketch does to the outside world is one of four effects. They are logged in
  program order, so that a run can be inspected the way a bus recorder would show it.
\<close>

datatype event =
    PinMode pin pin_mode
  | DigitalWrite pin level
  | Delay nat
  | TimerWrite timer_reg "8 word"

record mcu =
  modes :: "pin \<Rightarrow> pin_mode"
  levels :: "pin \<Rightarrow> level"
  TCCR2A :: "8 word"
  TCCR2B :: "8 word"
  OCR2A :: "8 word"
  trace :: "event list"

subsection \<open>Pin assignment\<close>

definition BAUDCLK :: pin where "BAUDCLK = Digital 11"
definition ENABLE :: pin where "ENABLE = Analog 0"
definition RWN :: pin where "RWN = Analog 1"
definition RS :: pin where "RS = Analog 2"
definition CSN :: pin where "CSN = Analog 3"
definition CS2N :: pin where "CS2N = Analog 3"

definition D0 :: pin where "D0 = Digital 2"
definition D1 :: pin where "D1 = Digital 3"
definition D2 :: pin where "D2 = Digital 4"
definition D3 :: pin where "D3 = Digital 5"
definition D4 :: pin where "D4 = Digital 6"
definition D5 :: pin where "D5 = Digital 7"
definition D6 :: pin where "D6 = Digital 8"
definition D7 :: pin where "D7 = Digital 9"

definition LED_OUTPUT :: pin where "LED_OUTPUT = Digital 13"

definition DELAY_SHORT :: nat where "DELAY_SHORT = 1"
definition DELAY_MEDIUM :: nat where "DELAY_MEDIUM = 50"
definition DELAY_LONG :: nat where "DELAY_LONG = 200"

subsection \<open>The Arduino primitives the sketches call\<close>

text \<open>
  \<^verbatim>\<open>HIGH\<close> and \<^verbatim>\<open>LOW\<close> are the byte values 1 and 0. \<^verbatim>\<open>digitalWrite(pin, val)\<close> takes a byte
  and drives the pin low when the byte equals \<^verbatim>\<open>LOW\<close>, high otherwise.
\<close>

definition HIGH :: "8 word" where "HIGH = 1"
definition LOW :: "8 word" where "LOW = 0"

definition level_of :: "8 word \<Rightarrow> level" where
  "level_of val = (if val = LOW then Low else High)"

definition pinMode :: "pin \<Rightarrow> pin_mode \<Rightarrow> mcu \<Rightarrow> mcu" where
  "pinMode p m s = s\<lparr>modes := (modes s)(p := m), trace := trace s @ [PinMode p m]\<rparr>"

definition digitalWrite :: "pin \<Rightarrow> 8 word \<Rightarrow> mcu \<Rightarrow> mcu" where
  "digitalWrite p val s =
     s\<lparr>levels := (levels s)(p := level_of val),
       trace := trace s @ [DigitalWrite p (level_of val)]\<rparr>"

definition delay :: "nat \<Rightarrow> mcu \<Rightarrow> mcu" where
  "delay ms s = s\<lparr>trace := trace s @ [Delay ms]\<rparr>"

text \<open>
  \<^verbatim>\<open>bitRead(value, bit)\<close> is \<^verbatim>\<open>(((value) >> (bit)) & 0x01)\<close>. The argument is an \<^verbatim>\<open>int\<close>,
  16 bits wide and signed on this target, so the shift is the arithmetic one.
\<close>

definition bitRead :: "16 word \<Rightarrow> nat \<Rightarrow> 16 word" where
  "bitRead v b = signed_drop_bit b v AND 1"

text \<open>Assignments to the three Timer2 registers.\<close>

definition set_TCCR2A :: "8 word \<Rightarrow> mcu \<Rightarrow> mcu" where
  "set_TCCR2A v s = s\<lparr>TCCR2A := v, trace := trace s @ [TimerWrite Reg_TCCR2A v]\<rparr>"

definition set_TCCR2B :: "8 word \<Rightarrow> mcu \<Rightarrow> mcu" where
  "set_TCCR2B v s = s\<lparr>TCCR2B := v, trace := trace s @ [TimerWrite Reg_TCCR2B v]\<rparr>"

definition set_OCR2A :: "8 word \<Rightarrow> mcu \<Rightarrow> mcu" where
  "set_OCR2A v s = s\<lparr>OCR2A := v, trace := trace s @ [TimerWrite Reg_OCR2A v]\<rparr>"

text \<open>A function body is the list of its statements, run from first to last.\<close>

definition statements :: "(mcu \<Rightarrow> mcu) list \<Rightarrow> mcu \<Rightarrow> mcu" where
  "statements fs s = fold (\<lambda>f t. f t) fs s"

section \<open>Functions shared by both revisions\<close>

definition writeDataBus :: "16 word \<Rightarrow> mcu \<Rightarrow> mcu" where
  "writeDataBus data = statements
     [digitalWrite D0 (ucast (bitRead data 0)),
      digitalWrite D1 (ucast (bitRead data 1)),
      digitalWrite D2 (ucast (bitRead data 2)),
      digitalWrite D3 (ucast (bitRead data 3)),
      digitalWrite D4 (ucast (bitRead data 4)),
      digitalWrite D5 (ucast (bitRead data 5)),
      digitalWrite D6 (ucast (bitRead data 6)),
      digitalWrite D7 (ucast (bitRead data 7))]"

section \<open>First revision: MC6850.ino\<close>

definition setBusesToOutput :: "mcu \<Rightarrow> mcu" where
  "setBusesToOutput = statements
     [pinMode D0 OUTPUT, pinMode D1 OUTPUT, pinMode D2 OUTPUT, pinMode D3 OUTPUT,
      pinMode D4 OUTPUT, pinMode D5 OUTPUT, pinMode D6 OUTPUT, pinMode D7 OUTPUT,
      pinMode RS OUTPUT, pinMode RWN OUTPUT, pinMode ENABLE OUTPUT,
      pinMode BAUDCLK OUTPUT, pinMode CSN OUTPUT]"

definition initBaudClock :: "mcu \<Rightarrow> mcu" where
  "initBaudClock = statements [set_TCCR2A 0b01000011, set_TCCR2B 0b00001001, set_OCR2A 51]"

definition initMC6850 :: "mcu \<Rightarrow> mcu" where
  "initMC6850 = statements
     [delay 1, digitalWrite ENABLE LOW,
      delay 1, digitalWrite RWN LOW,
      delay 1, digitalWrite RS LOW,
      delay 1, digitalWrite CSN HIGH,
      delay 1,
      digitalWrite D0 HIGH, digitalWrite D1 LOW,
      digitalWrite D2 HIGH, digitalWrite D3 LOW, digitalWrite D4 HIGH,
      digitalWrite D5 LOW, digitalWrite D6 LOW,
      digitalWrite D7 LOW,
      digitalWrite CSN LOW, delay 1,
      digitalWrite ENABLE HIGH, delay 1]"

definition writeUart :: "16 word \<Rightarrow> mcu \<Rightarrow> mcu" where
  "writeUart data = statements
     [delay 1, digitalWrite ENABLE LOW,
      delay 1, digitalWrite RWN LOW,
      delay 1, digitalWrite RS HIGH,
      delay 1, digitalWrite CSN HIGH,
      delay 1,
      writeDataBus data,
      digitalWrite CSN LOW, delay 1,
      digitalWrite ENABLE HIGH, delay 1]"

definition setup_MC6850 :: "mcu \<Rightarrow> mcu" where
  "setup_MC6850 = statements [setBusesToOutput, initBaudClock, initMC6850]"

text \<open>The character literals of \<^verbatim>\<open>loop\<close> are written as their ASCII codes.\<close>

definition loop_MC6850 :: "mcu \<Rightarrow> mcu" where
  "loop_MC6850 = statements
     [writeUart 0x54, writeUart 0x45, writeUart 0x53, writeUart 0x54,
      writeUart 0x41, writeUart 0x43, writeUart 0x49, writeUart 0x41,
      delay 100]"

section \<open>Documented revision: 6850.ino\<close>

text \<open>\<^verbatim>\<open>testString\<close> holds the characters of "TESTACIA"; the terminating zero is not listed.\<close>

definition testString :: "8 word list" where
  "testString = [0x54, 0x45, 0x53, 0x54, 0x41, 0x43, 0x49, 0x41]"

definition setUartPinsToOutput :: "mcu \<Rightarrow> mcu" where
  "setUartPinsToOutput = statements
     [pinMode D0 OUTPUT, pinMode D1 OUTPUT, pinMode D2 OUTPUT, pinMode D3 OUTPUT,
      pinMode D4 OUTPUT, pinMode D5 OUTPUT, pinMode D6 OUTPUT, pinMode D7 OUTPUT,
      pinMode RS OUTPUT, pinMode RWN OUTPUT, pinMode ENABLE OUTPUT,
      pinMode BAUDCLK OUTPUT, pinMode CS2N OUTPUT]"

definition setDataBusToHighZ :: "mcu \<Rightarrow> mcu" where
  "setDataBusToHighZ = statements
     [pinMode D0 INPUT, pinMode D1 INPUT, pinMode D2 INPUT, pinMode D3 INPUT,
      pinMode D4 INPUT, pinMode D5 INPUT, pinMode D6 INPUT, pinMode D7 INPUT]"

definition writeCharToUart :: "16 word \<Rightarrow> mcu \<Rightarrow> mcu" where
  "writeCharToUart data = statements
     [digitalWrite ENABLE LOW, delay DELAY_SHORT,
      digitalWrite RWN LOW, delay DELAY_SHORT,
      digitalWrite RS HIGH, delay DELAY_SHORT,
      digitalWrite CS2N HIGH, delay DELAY_SHORT,
      writeDataBus data,
      digitalWrite CS2N LOW, delay DELAY_SHORT,
      digitalWrite ENABLE HIGH, delay DELAY_SHORT]"

text \<open>
  \<^verbatim>\<open>printStringToUart\<close> walks a zero-terminated string: \<^verbatim>\<open>strlen\<close> counts the characters
  before the terminator and \<^verbatim>\<open>pgm_read_byte_near(str + j)\<close> fetches the one at offset \<^verbatim>\<open>j\<close>.
  The string is given as the list of those characters, and both calls are taken to see
  the same characters. The loop counter is an \<^verbatim>\<open>int\<close> compared with an unsigned length;
  it is a natural number here, which is exact for every string that fits the 16-bit
  address space. The fetched byte is stored in a \<^verbatim>\<open>char\<close> (signed on this target) and
  widened to \<^verbatim>\<open>int\<close> for the call, hence \<open>scast\<close>.
\<close>

definition strlen :: "8 word list \<Rightarrow> nat" where
  "strlen str = length str"

definition pgm_read_byte_near :: "8 word list \<Rightarrow> nat \<Rightarrow> 8 word" where
  "pgm_read_byte_near str j = str ! j"

function printStringToUart_from :: "8 word list \<Rightarrow> nat \<Rightarrow> mcu \<Rightarrow> mcu" where
  "printStringToUart_from str j s =
     (if j < strlen str
      then printStringToUart_from str (j + 1)
             (writeCharToUart (scast (pgm_read_byte_near str j)) s)
      else s)"
  by pat_completeness auto
termination
  by (relation "measure (\<lambda>(str, j, s). strlen str - j)") auto

declare printStringToUart_from.simps [simp del]

definition printStringToUart :: "8 word list \<Rightarrow> mcu \<Rightarrow> mcu" where
  "printStringToUart str = printStringToUart_from str 0"

fun blinkLed_from :: "nat \<Rightarrow> mcu \<Rightarrow> mcu" where
  "blinkLed_from 0 s = s"
| "blinkLed_from (Suc k) s =
     blinkLed_from k
       (statements
          [digitalWrite LED_OUTPUT HIGH, delay DELAY_LONG,
           digitalWrite LED_OUTPUT LOW, delay DELAY_LONG] s)"

definition blinkLed :: "mcu \<Rightarrow> mcu" where
  "blinkLed = blinkLed_from 4"

definition initClocks :: "mcu \<Rightarrow> mcu" where
  "initClocks = statements [set_TCCR2A 0b01000011, set_TCCR2B 0b00001001, set_OCR2A 51]"

definition initUart :: "mcu \<Rightarrow> mcu" where
  "initUart = statements
     [delay DELAY_SHORT,
      digitalWrite ENABLE LOW, delay DELAY_SHORT,
      digitalWrite RWN LOW, delay DELAY_SHORT,
      digitalWrite RS LOW, delay DELAY_SHORT,
      digitalWrite CS2N HIGH, delay DELAY_SHORT,
      writeDataBus 0b00010101,
      digitalWrite CS2N LOW, delay DELAY_SHORT,
      digitalWrite ENABLE HIGH, delay DELAY_SHORT,
      blinkLed]"

definition setup_6850 :: "mcu \<Rightarrow> mcu" where
  "setup_6850 = statements
     [pinMode LED_OUTPUT OUTPUT, setUartPinsToOutput, initClocks, initUart]"

definition loop_6850 :: "mcu \<Rightarrow> mcu" where
  "loop_6850 = statements
     [printStringToUart testString,
      digitalWrite LED_OUTPUT HIGH, delay DELAY_MEDIUM,
      digitalWrite LED_OUTPUT LOW,
      delay 1000]"

section \<open>Whole runs\<close>

text \<open>
  The Arduino runtime calls \<^verbatim>\<open>setup\<close> once after reset and then \<^verbatim>\<open>loop\<close> over and over.
  A run observed up to the end of its \<open>n\<close>-th loop iteration:
\<close>

primrec iterate :: "nat \<Rightarrow> (mcu \<Rightarrow> mcu) \<Rightarrow> mcu \<Rightarrow> mcu" where
  "iterate 0 body s = s"
| "iterate (Suc n) body s = iterate n body (body s)"

definition run :: "nat \<Rightarrow> mcu \<Rightarrow> mcu" where
  "run n s = iterate n loop_MC6850 (setup_MC6850 s)"

definition run_6850 :: "nat \<Rightarrow> mcu \<Rightarrow> mcu" where
  "run_6850 n s = iterate n loop_6850 (setup_6850 s)"

text \<open>What a call adds to the log.\<close>

definition emitted :: "(mcu \<Rightarrow> mcu) \<Rightarrow> mcu \<Rightarrow> event list" where
  "emitted f s = drop (length (trace s)) (trace (f s))"

section \<open>Observing a log\<close>

text \<open>
  The twelve lines between the microcontroller and the chip, the data lines first and in
  ascending pin order, and the line carrying the baud clock.
\<close>

definition data_lines :: "pin list" where
  "data_lines = [D0, D1, D2, D3, D4, D5, D6, D7]"

definition control_lines :: "pin list" where
  "control_lines = [RS, RWN, ENABLE, CSN]"

definition bus_lines :: "pin list" where
  "bus_lines = data_lines @ control_lines @ [BAUDCLK]"

text \<open>The line states after a stretch of log, starting from given line states.\<close>

fun replay :: "(pin \<Rightarrow> level) \<Rightarrow> event list \<Rightarrow> pin \<Rightarrow> level" where
  "replay lv [] = lv"
| "replay lv (DigitalWrite p l # es) = replay (lv(p := l)) es"
| "replay lv (PinMode p m # es) = replay lv es"
| "replay lv (Delay ms # es) = replay lv es"
| "replay lv (TimerWrite r v # es) = replay lv es"

text \<open>
  The chip takes a byte when the enable line is pulsed, that is driven high while it was
  low. What the chip then sees on the other lines is one bus cycle. A log is read as the
  sequence of its timer programmings and bus cycles.
\<close>

record bus_cycle =
  reg_select :: level
  read_write :: level
  chip_select :: level
  data :: "level list"

datatype observation = TimerSet timer_reg "8 word" | BusCycle bus_cycle

definition sample :: "(pin \<Rightarrow> level) \<Rightarrow> bus_cycle" where
  "sample lv = \<lparr>reg_select = lv RS, read_write = lv RWN, chip_select = lv CSN,
                data = map lv data_lines\<rparr>"

fun observations :: "(pin \<Rightarrow> level) \<Rightarrow> event list \<Rightarrow> observation list" where
  "observations lv [] = []"
| "observations lv (DigitalWrite p l # es) =
     (if p = ENABLE \<and> l = High \<and> lv ENABLE = Low
      then [BusCycle (sample (lv(p := l)))] else [])
     @ observations (lv(p := l)) es"
| "observations lv (TimerWrite r v # es) = TimerSet r v # observations lv es"
| "observations lv (PinMode p m # es) = observations lv es"
| "observations lv (Delay ms # es) = observations lv es"

fun cycles_of :: "observation list \<Rightarrow> bus_cycle list" where
  "cycles_of [] = []"
| "cycles_of (BusCycle c # obs) = c # cycles_of obs"
| "cycles_of (TimerSet r v # obs) = cycles_of obs"

definition bus_cycles :: "(pin \<Rightarrow> level) \<Rightarrow> event list \<Rightarrow> bus_cycle list" where
  "bus_cycles lv es = cycles_of (observations lv es)"

text \<open>The byte on the data lines of a cycle, line \<open>i\<close> carrying bit \<open>i\<close>.\<close>

definition payload :: "bus_cycle \<Rightarrow> 8 word" where
  "payload c = horner_sum of_bool 2 (map (\<lambda>l. l = High) (data c))"

text \<open>Bit \<open>i\<close> of an \<^verbatim>\<open>int\<close> as a line level.\<close>

definition bit_level :: "16 word \<Rightarrow> nat \<Rightarrow> level" where
  "bit_level v i = (if bit v i then High else Low)"

text \<open>
  A write cycle as the chip sees it: read/write at the write level, chip select released,
  the given register select and the given levels on the data lines.
\<close>

definition write_cycle :: "level \<Rightarrow> level list \<Rightarrow> bus_cycle" where
  "write_cycle rs ds = \<lparr>reg_select = rs, read_write = Low, chip_select = Low, data = ds\<rparr>"

text \<open>
  Which register a cycle addresses: with read/write at the write level, register select low
  addresses the control register and register select high the transmit data register.
\<close>

datatype transfer = ControlWrite "8 word" | DataWrite "8 word" | ReadCycle

definition transfer_of :: "bus_cycle \<Rightarrow> transfer" where
  "transfer_of c =
     (if read_write c = Low
      then (if reg_select c = Low then ControlWrite (payload c) else DataWrite (payload c))
      else ReadCycle)"

definition transfers :: "(pin \<Rightarrow> level) \<Rightarrow> event list \<Rightarrow> transfer list" where
  "transfers lv es = map transfer_of (bus_cycles lv es)"

text \<open>Timer programmings and register transfers of a log, in the order they happen.\<close>

datatype step = ClockProgrammed timer_reg "8 word" | Transfer transfer

fun step_of :: "observation \<Rightarrow> step" where
  "step_of (TimerSet r v) = ClockProgrammed r v"
| "step_of (BusCycle c) = Transfer (transfer_of c)"

definition steps :: "(pin \<Rightarrow> level) \<Rightarrow> event list \<Rightarrow> step list" where
  "steps lv es = map step_of (observations lv es)"

fun is_transfer :: "step \<Rightarrow> bool" where
  "is_transfer (Transfer t) = True"
| "is_transfer (ClockProgrammed r v) = False"

fun is_control_write :: "step \<Rightarrow> bool" where
  "is_control_write (Transfer (ControlWrite v)) = True"
| "is_control_write (Transfer (DataWrite v)) = False"
| "is_control_write (Transfer ReadCycle) = False"
| "is_control_write (ClockProgrammed r v) = False"

text \<open>The writes to bus lines in a log, in order; delays and the status LED are left out.\<close>

fun line_changes :: "event list \<Rightarrow> (pin \<times> level) list" where
  "line_changes [] = []"
| "line_changes (DigitalWrite p l # es) =
     (if p \<in> set bus_lines then [(p, l)] else []) @ line_changes es"
| "line_changes (PinMode p m # es) = line_changes es"
| "line_changes (Delay ms # es) = line_changes es"
| "line_changes (TimerWrite r v # es) = line_changes es"

text \<open>The direction settings in a log, in order.\<close>

fun pin_modes :: "event list \<Rightarrow> (pin \<times> pin_mode) list" where
  "pin_modes [] = []"
| "pin_modes (PinMode p m # es) = (p, m) # pin_modes es"
| "pin_modes (DigitalWrite p l # es) = pin_modes es"
| "pin_modes (Delay ms # es) = pin_modes es"
| "pin_modes (TimerWrite r v # es) = pin_modes es"

text \<open>The directions after a list of direction settings, starting from given directions.\<close>

fun directions_after ::
  "(pin \<Rightarrow> pin_mode) \<Rightarrow> (pin \<times> pin_mode) list \<Rightarrow> pin \<Rightarrow> pin_mode" where
  "directions_after f [] = f"
| "directions_after f ((p, m) # pms) = directions_after (f(p := m)) pms"

subsection \<open>The control register, as the sketch documents it\<close>

text \<open>
  Bits 0-1 select the clock divider, bits 2-4 the character format, bits 5-6 the
  transmitter control and bit 7 enables the receive interrupt.
\<close>

datatype clock_divider = CLK_64 | CLK_16 | CLK_1 | MASTER_RESET

datatype char_format = F_7e2 | F_7o2 | F_7e1 | F_7o1 | F_8n2 | F_8n1 | F_8e1 | F_8o1

datatype tx_control =
    RTS_low_TxInt_disabled
  | RTS_low_TxInt_enabled
  | RTS_high_TxInt_disabled
  | RTS_low_TxInt_disabled_Break

record control_setting =
  divider :: clock_divider
  format :: char_format
  transmitter :: tx_control
  rx_interrupt :: bool

definition decode_divider :: "8 word \<Rightarrow> clock_divider" where
  "decode_divider cr =
     (let b = take_bit 2 cr in
      if b = 0 then CLK_64 else if b = 1 then CLK_16 else if b = 2 then CLK_1
      else MASTER_RESET)"

definition decode_format :: "8 word \<Rightarrow> char_format" where
  "decode_format cr =
     (let b = take_bit 3 (drop_bit 2 cr) in
      if b = 0 then F_7e2 else if b = 1 then F_7o2 else if b = 2 then F_7e1
      else if b = 3 then F_7o1 else if b = 4 then F_8n2 else if b = 5 then F_8n1
      else if b = 6 then F_8e1 else F_8o1)"

definition decode_transmitter :: "8 word \<Rightarrow> tx_control" where
  "decode_transmitter cr =
     (let b = take_bit 2 (drop_bit 5 cr) in
      if b = 0 then RTS_low_TxInt_disabled else if b = 1 then RTS_low_TxInt_enabled
      else if b = 2 then RTS_high_TxInt_disabled else RTS_low_TxInt_disabled_Break)"

definition decode_control :: "8 word \<Rightarrow> control_setting" where
  "decode_control cr =
     \<lparr>divider = decode_divider cr, format = decode_format cr,
      transmitter = decode_transmitter cr, rx_interrupt = bit cr 7\<rparr>"

subsection \<open>The generated clock\<close>

text \<open>
  Modelled from the spec: the timer hardware is not part of the sketches. With the output
  toggled at every compare match, the frequency on the clock pin is the timer clock
  (system clock over prescaler) divided by twice the toggle count plus one.
\<close>

definition generated_clock_freq :: "real \<Rightarrow> nat \<Rightarrow> 8 word \<Rightarrow> real" where
  "generated_clock_freq f_cpu prescaler toggle_count =
     f_cpu / real prescaler / (2 * (real (unat toggle_count) + 1))"

definition relative_error :: "real \<Rightarrow> real \<Rightarrow> real" where
  "relative_error actual ideal = \<bar>actual - ideal\<bar> / ideal"

text \<open>The clock-select field of \<^verbatim>\<open>TCCR2B\<close>, bits 2:0.\<close>

definition clock_select :: "8 word \<Rightarrow> 8 word" where
  "clock_select tccr2b = take_bit 3 tccr2b"

section \<open>A state is a function of the log\<close>

text \<open>
  No function of the sketches reads a pin or a register, so each of them is the same as
  performing a fixed list of effects. \<open>perform\<close> replays one logged effect on a state;
  the lists named \<open>_log\<close> below are what the functions are then proved to append to
  the log, the two revisions sharing the core of a register write.
\<close>

fun perform :: "event \<Rightarrow> mcu \<Rightarrow> mcu" where
  "perform (PinMode p m) s = pinMode p m s"
| "perform (DigitalWrite p l) s =
     s\<lparr>levels := (levels s)(p := l), trace := trace s @ [DigitalWrite p l]\<rparr>"
| "perform (Delay ms) s = delay ms s"
| "perform (TimerWrite Reg_TCCR2A v) s = set_TCCR2A v s"
| "perform (TimerWrite Reg_TCCR2B v) s = set_TCCR2B v s"
| "perform (TimerWrite Reg_OCR2A v) s = set_OCR2A v s"

definition performs :: "event list \<Rightarrow> mcu \<Rightarrow> mcu" where
  "performs es s = fold perform es s"

definition writeDataBus_log :: "16 word \<Rightarrow> event list" where
  "writeDataBus_log v =
     [DigitalWrite D0 (bit_level v 0), DigitalWrite D1 (bit_level v 1),
      DigitalWrite D2 (bit_level v 2), DigitalWrite D3 (bit_level v 3),
      DigitalWrite D4 (bit_level v 4), DigitalWrite D5 (bit_level v 5),
      DigitalWrite D6 (bit_level v 6), DigitalWrite D7 (bit_level v 7)]"

definition register_write_log :: "level \<Rightarrow> 16 word \<Rightarrow> event list" where
  "register_write_log rs v =
     [DigitalWrite ENABLE Low, Delay 1, DigitalWrite RWN Low, Delay 1,
      DigitalWrite RS rs, Delay 1, DigitalWrite CSN High, Delay 1]
     @ writeDataBus_log v
     @ [DigitalWrite CSN Low, Delay 1, DigitalWrite ENABLE High, Delay 1]"

definition blinkLed_log :: "event list" where
  "blinkLed_log = concat (replicate 4
     [DigitalWrite LED_OUTPUT High, Delay 200, DigitalWrite LED_OUTPUT Low, Delay 200])"

definition pins_log :: "event list" where
  "pins_log = map (\<lambda>p. PinMode p OUTPUT)
     [D0, D1, D2, D3, D4, D5, D6, D7, RS, RWN, ENABLE, BAUDCLK, CSN]"

definition clock_log :: "event list" where
  "clock_log = [TimerWrite Reg_TCCR2A 0x43, TimerWrite Reg_TCCR2B 0x09,
                TimerWrite Reg_OCR2A 51]"

definition printStringToUart_log :: "8 word list \<Rightarrow> event list" where
  "printStringToUart_log str = concat (map (\<lambda>c. register_write_log High (scast c)) str)"

definition loop_MC6850_log :: "event list" where
  "loop_MC6850_log =
     concat (map (\<lambda>c. Delay 1 # register_write_log High (ucast c)) testString)
     @ [Delay 100]"

definition loop_6850_log :: "event list" where
  "loop_6850_log =
     printStringToUart_log testString
     @ [DigitalWrite LED_OUTPUT High, Delay 50, DigitalWrite LED_OUTPUT Low, Delay 1000]"

definition setup_MC6850_log :: "event list" where
  "setup_MC6850_log = pins_log @ clock_log @ Delay 1 # register_write_log Low 0x15"

definition setup_6850_log :: "event list" where
  "setup_6850_log =
     PinMode LED_OUTPUT OUTPUT # pins_log @ clock_log
     @ Delay 1 # register_write_log Low 0x15 @ blinkLed_log"

text \<open>The state of the microcontroller at power-on, used for concrete runs.\<close>

definition power_on :: mcu where
  "power_on = \<lparr>modes = (\<lambda>p. INPUT), levels = (\<lambda>p. Low),
               TCCR2A = 0, TCCR2B = 0, OCR2A = 0, trace = []\<rparr>"

section \<open>Basic facts\<close>

lemmas pin_defs =
  BAUDCLK_def ENABLE_def RWN_def RS_def CSN_def CS2N_def
  D0_def D1_def D2_def D3_def D4_def D5_def D6_def D7_def LED_OUTPUT_def

lemmas delay_defs = DELAY_SHORT_def DELAY_MEDIUM_def DELAY_LONG_def

lemma statements_Nil [simp]: "statements [] s = s"
  by (simp add: statements_def)

lemma statements_Cons [simp]: "statements (f # fs) s = statements fs (f s)"
  by (simp add: statements_def)

lemma performs_Nil [simp]: "performs [] s = s"
  by (simp add: performs_def)

lemma performs_Cons: "performs (e # es) s = performs es (perform e s)"
  by (simp add: performs_def)

lemma performs_append: "performs (xs @ ys) s = performs ys (performs xs s)"
  by (simp add: performs_def)

lemma trace_perform: "trace (perform e s) = trace s @ [e]"
  by (cases "(e, s)" rule: perform.cases)
     (simp_all add: pinMode_def delay_def set_TCCR2A_def set_TCCR2B_def set_OCR2A_def)

lemma trace_performs: "trace (performs es s) = trace s @ es"
  by (induction es arbitrary: s) (simp_all add: performs_Cons trace_perform)

lemma emitted_performs: "emitted (performs es) s = es"
  by (simp add: emitted_def trace_performs)

lemma levels_perform: "levels (perform e s) = replay (levels s) [e]"
  by (cases "(e, s)" rule: perform.cases)
     (simp_all add: pinMode_def delay_def set_TCCR2A_def set_TCCR2B_def set_OCR2A_def)

lemma replay_append: "replay lv (xs @ ys) = replay (replay lv xs) ys"
proof (induction xs arbitrary: lv)
  case Nil
  show ?case by simp
next
  case (Cons e es)
  show ?case
  proof (cases e)
    case (DigitalWrite p l)
    have "replay lv ((e # es) @ ys) = replay (lv(p := l)) (es @ ys)"
      by (simp add: DigitalWrite)
    also have "\<dots> = replay (replay (lv(p := l)) es) ys"
      by (rule Cons.IH)
    also have "\<dots> = replay (replay lv (e # es)) ys"
      by (simp add: DigitalWrite)
    finally show ?thesis .
  next
    case (PinMode p m)
    then show ?thesis using Cons.IH [of lv] by simp
  next
    case (Delay ms)
    then show ?thesis using Cons.IH [of lv] by simp
  next
    case (TimerWrite r v)
    then show ?thesis using Cons.IH [of lv] by simp
  qed
qed

lemma levels_performs: "levels (performs es s) = replay (levels s) es"
proof (induction es arbitrary: s)
  case Nil
  show ?case by simp
next
  case (Cons e es)
  have "replay (levels s) (e # es) = replay (replay (levels s) [e]) es"
    using replay_append [of "levels s" "[e]" es] by simp
  with Cons show ?case
    by (simp add: performs_Cons levels_perform)
qed

lemma observations_append:
  "observations lv (xs @ ys) = observations lv xs @ observations (replay lv xs) ys"
proof (induction xs arbitrary: lv)
  case Nil
  show ?case by simp
next
  case (Cons e es)
  show ?case
  proof (cases e)
    case (DigitalWrite p l)
    have "observations (lv(p := l)) (es @ ys) =
          observations (lv(p := l)) es @ observations (replay (lv(p := l)) es) ys"
      by (rule Cons.IH)
    then show ?thesis
      by (simp only: DigitalWrite append_Cons observations.simps replay.simps append_assoc)
  next
    case (PinMode p m)
    then show ?thesis using Cons.IH [of lv] by simp
  next
    case (Delay ms)
    then show ?thesis using Cons.IH [of lv] by simp
  next
    case (TimerWrite r v)
    then show ?thesis using Cons.IH [of lv] by simp
  qed
qed

lemma cycles_of_append: "cycles_of (xs @ ys) = cycles_of xs @ cycles_of ys"
  by (induction xs rule: cycles_of.induct) simp_all

lemma bus_cycles_append:
  "bus_cycles lv (xs @ ys) = bus_cycles lv xs @ bus_cycles (replay lv xs) ys"
  by (simp add: bus_cycles_def observations_append cycles_of_append)

lemma line_changes_append: "line_changes (xs @ ys) = line_changes xs @ line_changes ys"
  by (induction xs rule: line_changes.induct) simp_all

lemma pin_modes_append: "pin_modes (xs @ ys) = pin_modes xs @ pin_modes ys"
  by (induction xs rule: pin_modes.induct) simp_all

lemma bitRead_eq: "i < 16 \<Longrightarrow> bitRead v i = of_bool (bit v i)"
  unfolding bitRead_def
  by (rule bit_word_eqI) (auto simp add: bit_simps)

lemma bitRead_level: "i < 16 \<Longrightarrow> level_of (ucast (bitRead v i)) = bit_level v i"
  by (simp add: bitRead_eq level_of_def bit_level_def LOW_def)

lemma level_of_HIGH [simp]: "level_of HIGH = High"
  by (simp add: level_of_def HIGH_def LOW_def)

lemma level_of_LOW [simp]: "level_of LOW = Low"
  by (simp add: level_of_def LOW_def)

lemma digitalWrite_performs: "digitalWrite p val s = performs [DigitalWrite p (level_of val)] s"
  by (simp add: performs_Cons digitalWrite_def)

lemma delay_performs: "delay ms s = performs [Delay ms] s"
  by (simp add: performs_Cons)

lemma pinMode_performs: "pinMode p m s = performs [PinMode p m] s"
  by (simp add: performs_Cons)

lemma set_TCCR2A_performs: "set_TCCR2A v s = performs [TimerWrite Reg_TCCR2A v] s"
  by (simp add: performs_Cons)

lemma set_TCCR2B_performs: "set_TCCR2B v s = performs [TimerWrite Reg_TCCR2B v] s"
  by (simp add: performs_Cons)

lemma set_OCR2A_performs: "set_OCR2A v s = performs [TimerWrite Reg_OCR2A v] s"
  by (simp add: performs_Cons)

lemmas primitive_performs =
  digitalWrite_performs delay_performs pinMode_performs
  set_TCCR2A_performs set_TCCR2B_performs set_OCR2A_performs

lemma performs_performs: "performs ys (performs xs s) = performs (xs @ ys) s"
  by (simp add: performs_append)

section \<open>Every function as its log\<close>

lemma writeDataBus_performs: "writeDataBus v s = performs (writeDataBus_log v) s"
  by (simp add: writeDataBus_def writeDataBus_log_def primitive_performs performs_performs
      bitRead_level)

lemma writeUart_performs:
  "writeUart v s = performs (Delay 1 # register_write_log High v) s"
  by (simp add: writeUart_def register_write_log_def primitive_performs performs_performs
      writeDataBus_performs)

lemma writeCharToUart_performs:
  "writeCharToUart v s = performs (register_write_log High v) s"
  by (simp add: writeCharToUart_def register_write_log_def primitive_performs
      performs_performs writeDataBus_performs delay_defs CS2N_def CSN_def)

lemma bit_level_0x15:
  "map (bit_level 0x15) [0, 1, 2, 3, 4, 5, 6, 7] = [High, Low, High, Low, High, Low, Low, Low]"
  by (simp add: bit_level_def)

lemma initMC6850_performs:
  "initMC6850 s = performs (Delay 1 # register_write_log Low 0x15) s"
  using bit_level_0x15
  by (simp add: initMC6850_def register_write_log_def writeDataBus_log_def
      primitive_performs performs_performs)

lemma blinkLed_performs: "blinkLed s = performs blinkLed_log s"
  by (simp add: blinkLed_def blinkLed_log_def eval_nat_numeral primitive_performs
      performs_performs delay_defs)

lemma initUart_performs:
  "initUart s = performs (Delay 1 # register_write_log Low 0x15 @ blinkLed_log) s"
  by (simp add: initUart_def register_write_log_def primitive_performs performs_performs
      writeDataBus_performs blinkLed_performs delay_defs CS2N_def CSN_def)

lemma setBusesToOutput_performs: "setBusesToOutput s = performs pins_log s"
  by (simp add: setBusesToOutput_def pins_log_def primitive_performs performs_performs)

lemma setUartPinsToOutput_performs: "setUartPinsToOutput s = performs pins_log s"
  by (simp add: setUartPinsToOutput_def pins_log_def primitive_performs performs_performs
      CS2N_def CSN_def)

lemma initBaudClock_performs: "initBaudClock s = performs clock_log s"
  by (simp add: initBaudClock_def clock_log_def primitive_performs performs_performs)

lemma initClocks_performs: "initClocks s = performs clock_log s"
  by (simp add: initClocks_def clock_log_def primitive_performs performs_performs)

lemma printStringToUart_from_performs:
  "printStringToUart_from str j s = performs (printStringToUart_log (drop j str)) s"
proof (induction str j s rule: printStringToUart_from.induct)
  case (1 str j s)
  show ?case
  proof (cases "j < strlen str")
    case True
    then have d: "drop j str = str ! j # drop (Suc j) str"
      by (simp add: strlen_def Cons_nth_drop_Suc)
    have "printStringToUart_from str j s =
          printStringToUart_from str (j + 1)
            (writeCharToUart (scast (pgm_read_byte_near str j)) s)"
      using True by (simp add: printStringToUart_from.simps [of str j s])
    also have "\<dots> = performs (printStringToUart_log (drop (j + 1) str))
                        (writeCharToUart (scast (pgm_read_byte_near str j)) s)"
      using True by (rule "1.IH")
    also have "\<dots> = performs (printStringToUart_log (drop j str)) s"
      by (simp add: d printStringToUart_log_def writeCharToUart_performs performs_performs
          pgm_read_byte_near_def)
    finally show ?thesis .
  next
    case False
    then show ?thesis
      by (simp add: strlen_def printStringToUart_log_def printStringToUart_from.simps [of str j s])
  qed
qed


lemma printStringToUart_performs:
  "printStringToUart str s = performs (printStringToUart_log str) s"
  by (simp add: printStringToUart_def printStringToUart_from_performs)


lemma loop_MC6850_performs: "loop_MC6850 s = performs loop_MC6850_log s"
  by (simp add: loop_MC6850_def loop_MC6850_log_def testString_def writeUart_performs
      primitive_performs performs_performs)


lemma loop_6850_performs: "loop_6850 s = performs loop_6850_log s"
  by (simp add: loop_6850_def loop_6850_log_def printStringToUart_performs
      primitive_performs performs_performs delay_defs)


lemma iterate_performs:
  assumes "\<And>s. body s = performs es s"
  shows "iterate n body s = performs (concat (replicate n es)) s"
  by (induction n arbitrary: s) (simp_all add: assms performs_performs)


lemma setup_MC6850_performs: "setup_MC6850 s = performs setup_MC6850_log s"
  by (simp add: setup_MC6850_def setup_MC6850_log_def setBusesToOutput_performs
      initBaudClock_performs initMC6850_performs performs_performs)

lemma setup_6850_performs: "setup_6850 s = performs setup_6850_log s"
  by (simp add: setup_6850_def setup_6850_log_def setUartPinsToOutput_performs
      initClocks_performs initUart_performs primitive_performs performs_performs)

lemma run_performs:
  "run n s = performs (setup_MC6850_log @ concat (replicate n loop_MC6850_log)) s"
  by (simp add: run_def setup_MC6850_performs iterate_performs [of loop_MC6850, OF loop_MC6850_performs]
      performs_performs)

lemma run_6850_performs:
  "run_6850 n s = performs (setup_6850_log @ concat (replicate n loop_6850_log)) s"
  by (simp add: run_6850_def setup_6850_performs iterate_performs [of loop_6850, OF loop_6850_performs]
      performs_performs)

section \<open>What the chip sees of each log\<close>

lemma observations_register_write:
  "observations lv (register_write_log rs v) =
     [BusCycle (write_cycle rs
        [bit_level v 0, bit_level v 1, bit_level v 2, bit_level v 3,
         bit_level v 4, bit_level v 5, bit_level v 6, bit_level v 7])]"
  by (simp add: register_write_log_def writeDataBus_log_def write_cycle_def sample_def
      data_lines_def pin_defs)


lemma payload_bits:
  "payload (write_cycle rs
        [bit_level v 0, bit_level v 1, bit_level v 2, bit_level v 3,
         bit_level v 4, bit_level v 5, bit_level v 6, bit_level v 7]) = ucast v"
proof -
  have "[bit_level v 0 = High, bit_level v 1 = High, bit_level v 2 = High,
         bit_level v 3 = High, bit_level v 4 = High, bit_level v 5 = High,
         bit_level v 6 = High, bit_level v 7 = High] = map (bit v) [0..<8]"
    by (simp add: bit_level_def upt_rec numeral_eq_Suc)
  then have "payload (write_cycle rs
        [bit_level v 0, bit_level v 1, bit_level v 2, bit_level v 3,
         bit_level v 4, bit_level v 5, bit_level v 6, bit_level v 7])
       = horner_sum of_bool 2 (map (bit v) [0..<8])"
    by (simp only: payload_def write_cycle_def bus_cycle.simps list.map)
  also have "\<dots> = ucast v"
    by (rule bit_word_eqI) (auto simp add: bit_simps)
  finally show ?thesis .
qed

lemma observations_pins_log: "observations lv pins_log = []"
  by (simp add: pins_log_def)

lemma observations_clock_log:
  "observations lv clock_log =
     [TimerSet Reg_TCCR2A 0x43, TimerSet Reg_TCCR2B 0x09, TimerSet Reg_OCR2A 51]"
  by (simp add: clock_log_def)

lemma observations_blinkLed_log: "observations lv blinkLed_log = []"
  by (simp add: blinkLed_log_def eval_nat_numeral pin_defs)

lemma observations_concat_map:
  assumes "\<And>lv x. observations lv (f x) = g x"
  shows "observations lv (concat (map f xs)) = concat (map g xs)"
  by (induction xs arbitrary: lv) (simp_all add: observations_append assms)

lemma observations_replicate:
  assumes "\<And>lv. observations lv es = obs"
  shows "observations lv (concat (replicate n es)) = concat (replicate n obs)"
  by (induction n arbitrary: lv) (simp_all add: observations_append assms)

lemma bus_cycles_register_write:
  "bus_cycles lv (register_write_log rs v) =
     [write_cycle rs
        [bit_level v 0, bit_level v 1, bit_level v 2, bit_level v 3,
         bit_level v 4, bit_level v 5, bit_level v 6, bit_level v 7]]"
  by (simp add: bus_cycles_def observations_register_write)

lemma replay_writeDataBus_log:
  "replay lv (writeDataBus_log v) =
     lv(D0 := bit_level v 0, D1 := bit_level v 1, D2 := bit_level v 2, D3 := bit_level v 3,
        D4 := bit_level v 4, D5 := bit_level v 5, D6 := bit_level v 6, D7 := bit_level v 7)"
  by (simp add: writeDataBus_log_def)

lemma replay_register_write_log:
  "replay lv (register_write_log rs v) =
     lv(ENABLE := Low, RWN := Low, RS := rs, CSN := High,
        D0 := bit_level v 0, D1 := bit_level v 1, D2 := bit_level v 2, D3 := bit_level v 3,
        D4 := bit_level v 4, D5 := bit_level v 5, D6 := bit_level v 6, D7 := bit_level v 7,
        CSN := Low, ENABLE := High)"
  by (simp add: register_write_log_def replay_append replay_writeDataBus_log)

lemma emitted_writeUart: "emitted (writeUart v) s = Delay 1 # register_write_log High v"
  using emitted_performs [of "Delay 1 # register_write_log High v" s]
  by (simp add: emitted_def writeUart_performs)

lemma emitted_writeCharToUart: "emitted (writeCharToUart v) s = register_write_log High v"
  using emitted_performs [of "register_write_log High v" s]
  by (simp add: emitted_def writeCharToUart_performs)

lemma emitted_initMC6850: "emitted initMC6850 s = Delay 1 # register_write_log Low 0x15"
  using emitted_performs [of "Delay 1 # register_write_log Low 0x15" s]
  by (simp add: emitted_def initMC6850_performs)

lemma emitted_initUart:
  "emitted initUart s = Delay 1 # register_write_log Low 0x15 @ blinkLed_log"
  using emitted_performs [of "Delay 1 # register_write_log Low 0x15 @ blinkLed_log" s]
  by (simp add: emitted_def initUart_performs)

lemma emitted_run:
  "emitted (run n) s = setup_MC6850_log @ concat (replicate n loop_MC6850_log)"
  using emitted_performs [of "setup_MC6850_log @ concat (replicate n loop_MC6850_log)" s]
  by (simp add: emitted_def run_performs)

lemma emitted_run_6850:
  "emitted (run_6850 n) s = setup_6850_log @ concat (replicate n loop_6850_log)"
  using emitted_performs [of "setup_6850_log @ concat (replicate n loop_6850_log)" s]
  by (simp add: emitted_def run_6850_performs)

lemma line_changes_register_write:
  "line_changes (register_write_log rs v) =
     [(ENABLE, Low), (RWN, Low), (RS, rs), (CSN, High),
      (D0, bit_level v 0), (D1, bit_level v 1), (D2, bit_level v 2), (D3, bit_level v 3),
      (D4, bit_level v 4), (D5, bit_level v 5), (D6, bit_level v 6), (D7, bit_level v 7),
      (CSN, Low), (ENABLE, High)]"
  by (simp add: register_write_log_def writeDataBus_log_def bus_lines_def data_lines_def
      control_lines_def pin_defs)

lemma line_changes_blinkLed_log: "line_changes blinkLed_log = []"
  by (simp add: blinkLed_log_def eval_nat_numeral bus_lines_def data_lines_def
      control_lines_def pin_defs)

lemma modes_perform_io:
  "modes (perform (DigitalWrite p l) s) = modes s" "modes (perform (Delay ms) s) = modes s"
  by (simp_all add: delay_def)

lemma unchanged_by_register_write:
  "modes (performs (register_write_log rs v) s) = modes s
   \<and> TCCR2A (performs (register_write_log rs v) s) = TCCR2A s
   \<and> TCCR2B (performs (register_write_log rs v) s) = TCCR2B s
   \<and> OCR2A (performs (register_write_log rs v) s) = OCR2A s"
  by (simp add: register_write_log_def writeDataBus_log_def performs_Cons delay_def)

lemma bit_levels_0x15:
  "[bit_level 0x15 0, bit_level 0x15 1, bit_level 0x15 2, bit_level 0x15 3,
    bit_level 0x15 4, bit_level 0x15 5, bit_level 0x15 6, bit_level 0x15 7] =
   [High, Low, High, Low, High, Low, Low, Low]"
  by (simp add: bit_level_def)

lemma transfer_of_write_cycle:
  "transfer_of (write_cycle rs
        [bit_level v 0, bit_level v 1, bit_level v 2, bit_level v 3,
         bit_level v 4, bit_level v 5, bit_level v 6, bit_level v 7]) =
     (if rs = Low then ControlWrite (ucast v) else DataWrite (ucast v))"
proof (cases rs)
  case Low
  then show ?thesis
    using payload_bits [of Low v] by (simp add: transfer_of_def write_cycle_def)
next
  case High
  then show ?thesis
    using payload_bits [of High v] by (simp add: transfer_of_def write_cycle_def)
qed

lemma steps_register_write:
  "steps lv (register_write_log rs v) =
     [Transfer (if rs = Low then ControlWrite (ucast v) else DataWrite (ucast v))]"
  by (simp only: steps_def observations_register_write list.map step_of.simps
      transfer_of_write_cycle)

lemma transfers_register_write:
  "transfers lv (register_write_log rs v) =
     [if rs = Low then ControlWrite (ucast v) else DataWrite (ucast v)]"
  by (simp only: transfers_def bus_cycles_register_write list.map transfer_of_write_cycle)

lemma bus_cycles_blinkLed_log: "bus_cycles lv blinkLed_log = []"
  by (simp add: bus_cycles_def observations_blinkLed_log)

lemma ucast_scast_byte: "ucast (scast (c :: 8 word) :: 16 word) = c"
  by (rule bit_word_eqI) (auto simp add: bit_simps)

lemma ucast_ucast_byte: "ucast (ucast (c :: 8 word) :: 16 word) = c"
  by (rule bit_word_eqI) (auto simp add: bit_simps)

lemma steps_Nil [simp]: "steps lv [] = []"
  by (simp add: steps_def)

lemma steps_append: "steps lv (xs @ ys) = steps lv xs @ steps (replay lv xs) ys"
  by (simp add: steps_def observations_append)

lemma steps_concat_map:
  assumes "\<And>lv x. steps lv (f x) = g x"
  shows "steps lv (concat (map f xs)) = concat (map g xs)"
  by (induction xs arbitrary: lv) (simp_all add: steps_append assms)

lemma steps_replicate:
  assumes "\<And>lv. steps lv es = st"
  shows "steps lv (concat (replicate n es)) = concat (replicate n st)"
  by (induction n arbitrary: lv) (simp_all add: steps_append assms)

lemma steps_printStringToUart_log:
  "steps lv (printStringToUart_log str) = map (\<lambda>c. Transfer (DataWrite c)) str"
proof -
  have "steps lv (printStringToUart_log str) =
        concat (map (\<lambda>c. [Transfer (DataWrite c)]) str)"
    unfolding printStringToUart_log_def
    by (rule steps_concat_map) (simp add: steps_register_write ucast_scast_byte)
  then show ?thesis by (simp add: concat_map_singleton)
qed

lemma steps_loop_6850_log:
  "steps lv loop_6850_log = map (\<lambda>c. Transfer (DataWrite c)) testString"
  by (simp add: loop_6850_log_def steps_append steps_printStringToUart_log)
     (simp add: steps_def pin_defs)

lemma steps_loop_MC6850_log:
  "steps lv loop_MC6850_log = map (\<lambda>c. Transfer (DataWrite c)) testString"
proof -
  have 1: "steps lv (Delay 1 # register_write_log High (ucast c)) = [Transfer (DataWrite c)]"
    for lv and c :: "8 word"
    using steps_register_write [of lv High "ucast c"]
    by (simp add: steps_def ucast_ucast_byte)
  have "steps lv (concat (map (\<lambda>c. Delay 1 # register_write_log High (ucast c)) testString))
        = concat (map (\<lambda>c. [Transfer (DataWrite c)]) testString)"
    by (rule steps_concat_map) (rule 1)
  then show ?thesis
    by (simp add: loop_MC6850_log_def steps_append concat_map_singleton)
       (simp add: steps_def)
qed

lemma steps_setup_MC6850_log:
  "steps lv setup_MC6850_log =
     [ClockProgrammed Reg_TCCR2A 0x43, ClockProgrammed Reg_TCCR2B 0x09,
      ClockProgrammed Reg_OCR2A 51, Transfer (ControlWrite 0x15)]"
proof -
  have "steps lv' (Delay 1 # register_write_log Low 0x15) = [Transfer (ControlWrite 0x15)]"
    for lv'
    using steps_register_write [of lv' Low "0x15"] by (simp add: steps_def)
  then show ?thesis
    by (simp add: setup_MC6850_log_def steps_append)
       (simp add: steps_def observations_pins_log observations_clock_log)
qed

lemma steps_setup_6850_log:
  "steps lv setup_6850_log =
     [ClockProgrammed Reg_TCCR2A 0x43, ClockProgrammed Reg_TCCR2B 0x09,
      ClockProgrammed Reg_OCR2A 51, Transfer (ControlWrite 0x15)]"
proof -
  have 1: "steps lv' (Delay 1 # register_write_log Low 0x15 @ blinkLed_log) =
        [Transfer (ControlWrite 0x15)]" for lv'
    using steps_register_write [of lv' Low "0x15"]
    by (simp add: steps_def observations_append observations_blinkLed_log)
  have 2: "steps lv' (PinMode LED_OUTPUT OUTPUT # pins_log) = []" for lv'
    by (simp add: steps_def observations_pins_log)
  have 3: "steps lv' clock_log =
     [ClockProgrammed Reg_TCCR2A 0x43, ClockProgrammed Reg_TCCR2B 0x09,
      ClockProgrammed Reg_OCR2A 51]" for lv'
    by (simp add: steps_def observations_clock_log)
  have 4: "steps lv ((PinMode LED_OUTPUT OUTPUT # pins_log) @ clock_log @
          (Delay 1 # register_write_log Low 0x15 @ blinkLed_log)) =
     [ClockProgrammed Reg_TCCR2A 0x43, ClockProgrammed Reg_TCCR2B 0x09,
      ClockProgrammed Reg_OCR2A 51, Transfer (ControlWrite 0x15)]"
    unfolding steps_append 1 2 3 by simp
  have 5: "setup_6850_log = (PinMode LED_OUTPUT OUTPUT # pins_log) @ clock_log @
          (Delay 1 # register_write_log Low 0x15 @ blinkLed_log)"
    by (simp add: setup_6850_log_def)
  show ?thesis
    unfolding 5 by (rule 4)
qed

lemma steps_run:
  "steps lv (emitted (run n) s) =
     [ClockProgrammed Reg_TCCR2A 0x43, ClockProgrammed Reg_TCCR2B 0x09,
      ClockProgrammed Reg_OCR2A 51, Transfer (ControlWrite 0x15)]
     @ concat (replicate n (map (\<lambda>c. Transfer (DataWrite c)) testString))"
  by (simp only: emitted_run steps_append steps_setup_MC6850_log
      steps_replicate [of loop_MC6850_log, OF steps_loop_MC6850_log])

lemma steps_run_6850:
  "steps lv (emitted (run_6850 n) s) =
     [ClockProgrammed Reg_TCCR2A 0x43, ClockProgrammed Reg_TCCR2B 0x09,
      ClockProgrammed Reg_OCR2A 51, Transfer (ControlWrite 0x15)]
     @ concat (replicate n (map (\<lambda>c. Transfer (DataWrite c)) testString))"
  by (simp only: emitted_run_6850 steps_append steps_setup_6850_log
      steps_replicate [of loop_6850_log, OF steps_loop_6850_log])

lemma transfers_steps_aux:
  "map Transfer (map transfer_of (cycles_of obs)) = filter is_transfer (map step_of obs)"
  by (induction obs rule: cycles_of.induct) simp_all

lemma transfers_steps: "map Transfer (transfers lv es) = filter is_transfer (steps lv es)"
  by (simp only: transfers_def bus_cycles_def steps_def transfers_steps_aux)

lemma no_control_write_in_data_transfers:
  "filter is_control_write (concat (replicate n (map (\<lambda>c. Transfer (DataWrite c)) str))) = []"
  by (induction n) (simp_all add: filter_empty_conv)

lemma modes_pinMode: "modes (pinMode p m s) = (modes s)(p := m)"
  by (rule ext) (simp add: pinMode_def)

lemma modes_performs:
  "modes (performs es s) = directions_after (modes s) (pin_modes es)"
proof (induction es arbitrary: s)
  case Nil
  show ?case by simp
next
  case (Cons e es)
  show ?case
  proof (cases e)
    case (PinMode p m)
    have "modes (performs (e # es) s) = modes (performs es (pinMode p m s))"
      by (simp add: PinMode performs_Cons)
    also have "\<dots> = directions_after (modes (pinMode p m s)) (pin_modes es)"
      by (rule Cons.IH)
    also have "\<dots> = directions_after ((modes s)(p := m)) (pin_modes es)"
      by (simp only: modes_pinMode)
    also have "\<dots> = directions_after (modes s) (pin_modes (e # es))"
      by (simp add: PinMode)
    finally show ?thesis .
  next
    case (DigitalWrite p l)
    then show ?thesis by (simp add: performs_Cons Cons.IH)
  next
    case (Delay ms)
    then show ?thesis by (simp add: performs_Cons Cons.IH delay_def)
  next
    case (TimerWrite r v)
    then show ?thesis
      by (cases r)
         (simp_all add: performs_Cons Cons.IH set_TCCR2A_def set_TCCR2B_def set_OCR2A_def)
  qed
qed

lemma pin_modes_pins_log:
  "pin_modes pins_log = map (\<lambda>p. (p, OUTPUT))
     [D0, D1, D2, D3, D4, D5, D6, D7, RS, RWN, ENABLE, BAUDCLK, CSN]"
  by (simp add: pins_log_def)

lemma pin_modes_clock_log: "pin_modes clock_log = []"
  by (simp add: clock_log_def)

lemma pin_modes_register_write_log: "pin_modes (register_write_log rs v) = []"
  by (simp add: register_write_log_def writeDataBus_log_def)

lemma pin_modes_blinkLed_log: "pin_modes blinkLed_log = []"
  by (simp add: blinkLed_log_def eval_nat_numeral)

lemma pin_modes_concat_empty:
  assumes "\<And>x. pin_modes (f x) = []"
  shows "pin_modes (concat (map f xs)) = []"
  by (induction xs) (simp_all add: pin_modes_append assms)

lemma pin_modes_replicate_empty:
  assumes "pin_modes es = []"
  shows "pin_modes (concat (replicate n es)) = []"
  by (induction n) (simp_all add: pin_modes_append assms)

lemma pin_modes_loop_MC6850_log: "pin_modes loop_MC6850_log = []"
  by (simp add: loop_MC6850_log_def pin_modes_append pin_modes_concat_empty
      pin_modes_register_write_log)

lemma pin_modes_loop_6850_log: "pin_modes loop_6850_log = []"
  by (simp add: loop_6850_log_def printStringToUart_log_def pin_modes_append
      pin_modes_concat_empty pin_modes_register_write_log)

lemma pin_modes_run:
  "pin_modes (setup_MC6850_log @ concat (replicate n loop_MC6850_log)) =
     map (\<lambda>p. (p, OUTPUT)) [D0, D1, D2, D3, D4, D5, D6, D7, RS, RWN, ENABLE, BAUDCLK, CSN]"
  by (simp add: setup_MC6850_log_def pin_modes_append pin_modes_pins_log pin_modes_clock_log
      pin_modes_register_write_log pin_modes_replicate_empty pin_modes_loop_MC6850_log)

lemma pin_modes_run_6850:
  "pin_modes (setup_6850_log @ concat (replicate n loop_6850_log)) =
     (LED_OUTPUT, OUTPUT) #
     map (\<lambda>p. (p, OUTPUT)) [D0, D1, D2, D3, D4, D5, D6, D7, RS, RWN, ENABLE, BAUDCLK, CSN]"
  by (simp add: setup_6850_log_def pin_modes_append pin_modes_pins_log pin_modes_clock_log
      pin_modes_register_write_log pin_modes_blinkLed_log pin_modes_replicate_empty
      pin_modes_loop_6850_log)

lemma emitted_printStringToUart:
  "emitted (printStringToUart str) s = printStringToUart_log str"
  using emitted_performs [of "printStringToUart_log str" s]
  by (simp add: emitted_def printStringToUart_performs)

lemma emitted_loop_MC6850: "emitted loop_MC6850 s = loop_MC6850_log"
  using emitted_performs [of loop_MC6850_log s]
  by (simp add: emitted_def loop_MC6850_performs)

lemma emitted_loop_6850: "emitted loop_6850 s = loop_6850_log"
  using emitted_performs [of loop_6850_log s]
  by (simp add: emitted_def loop_6850_performs)

section \<open>Properties of the driver\<close>

subsection \<open>Only the low byte of the argument reaches the bus\<close>






subsection \<open>The data lines carry the bits of the value\<close>

text \<open>
  C1. A data-register write, in either revision, produces exactly one enable pulse, and at
  that pulse data line \<open>i\<close> carries bit \<open>i\<close> of the value, for each of the eight lines,
  the least significant bit on the lowest-numbered pin; the byte the chip reads is the
  value's low byte. The same levels are on the lines when the call returns.
\<close>

theorem data_lines_carry_bits_of_value:
  "bus_cycles (levels s) (emitted (writeUart v) s) =
     [write_cycle High
        [bit_level v 0, bit_level v 1, bit_level v 2, bit_level v 3,
         bit_level v 4, bit_level v 5, bit_level v 6, bit_level v 7]]
   \<and> bus_cycles (levels s) (emitted (writeCharToUart v) s) =
     [write_cycle High
        [bit_level v 0, bit_level v 1, bit_level v 2, bit_level v 3,
         bit_level v 4, bit_level v 5, bit_level v 6, bit_level v 7]]
   \<and> transfers (levels s) (emitted (writeUart v) s) = [DataWrite (ucast v)]
   \<and> transfers (levels s) (emitted (writeCharToUart v) s) = [DataWrite (ucast v)]
   \<and> map (levels (writeUart v s)) data_lines =
        [bit_level v 0, bit_level v 1, bit_level v 2, bit_level v 3,
         bit_level v 4, bit_level v 5, bit_level v 6, bit_level v 7]
   \<and> map (levels (writeCharToUart v s)) data_lines =
        [bit_level v 0, bit_level v 1, bit_level v 2, bit_level v 3,
         bit_level v 4, bit_level v 5, bit_level v 6, bit_level v 7]
   \<and> data_lines = [Digital 2, Digital 3, Digital 4, Digital 5,
                    Digital 6, Digital 7, Digital 8, Digital 9]"
proof -
  let ?bits = "[bit_level v 0, bit_level v 1, bit_level v 2, bit_level v 3,
                bit_level v 4, bit_level v 5, bit_level v 6, bit_level v 7]"
  have c1: "bus_cycles (levels s) (emitted (writeUart v) s) = [write_cycle High ?bits]"
    by (simp add: emitted_writeUart bus_cycles_def observations_register_write)
  have c2: "bus_cycles (levels s) (emitted (writeCharToUart v) s) = [write_cycle High ?bits]"
    by (simp add: emitted_writeCharToUart bus_cycles_def observations_register_write)
  have t: "transfer_of (write_cycle High ?bits) = DataWrite (ucast v)"
    using payload_bits [of High v] by (simp add: transfer_of_def write_cycle_def)
  have t1: "transfers (levels s) (emitted (writeUart v) s) = [DataWrite (ucast v)]"
    by (simp only: transfers_def c1 t list.map)
  have t2: "transfers (levels s) (emitted (writeCharToUart v) s) = [DataWrite (ucast v)]"
    by (simp only: transfers_def c2 t list.map)
  have l1: "map (levels (writeUart v s)) data_lines = ?bits"
    by (simp add: writeUart_performs levels_performs replay_register_write_log
        data_lines_def pin_defs)
  have l2: "map (levels (writeCharToUart v s)) data_lines = ?bits"
    by (simp add: writeCharToUart_performs levels_performs replay_register_write_log
        data_lines_def pin_defs)
  have d: "data_lines = [Digital 2, Digital 3, Digital 4, Digital 5,
                          Digital 6, Digital 7, Digital 8, Digital 9]"
    by (simp add: data_lines_def pin_defs)
  from c1 c2 t1 t2 l1 l2 d show ?thesis by blast
qed

subsection \<open>The order of line changes in a register write\<close>

text \<open>
  C2. Every register write, whether it sends a character or configures the chip, changes
  the bus lines in one fixed order: enable to its inactive level, read/write to write,
  register select; then chip select high; then the eight data lines from \<open>D0\<close> to
  \<open>D7\<close>; then chip select back low; then enable high. Nothing else is written to a bus
  line during the call (the configuration of the documented revision goes on to blink the
  status LED, which is not a bus line).
\<close>

theorem register_write_line_order:
  "line_changes (emitted (writeUart v) s) =
     [(ENABLE, Low), (RWN, Low), (RS, High)] @ [(CSN, High)]
     @ [(D0, bit_level v 0), (D1, bit_level v 1), (D2, bit_level v 2), (D3, bit_level v 3),
        (D4, bit_level v 4), (D5, bit_level v 5), (D6, bit_level v 6), (D7, bit_level v 7)]
     @ [(CSN, Low)] @ [(ENABLE, High)]
   \<and> line_changes (emitted (writeCharToUart v) s) =
     [(ENABLE, Low), (RWN, Low), (RS, High)] @ [(CS2N, High)]
     @ [(D0, bit_level v 0), (D1, bit_level v 1), (D2, bit_level v 2), (D3, bit_level v 3),
        (D4, bit_level v 4), (D5, bit_level v 5), (D6, bit_level v 6), (D7, bit_level v 7)]
     @ [(CS2N, Low)] @ [(ENABLE, High)]
   \<and> line_changes (emitted initMC6850 s) =
     [(ENABLE, Low), (RWN, Low), (RS, Low)] @ [(CSN, High)]
     @ [(D0, High), (D1, Low), (D2, High), (D3, Low),
        (D4, High), (D5, Low), (D6, Low), (D7, Low)]
     @ [(CSN, Low)] @ [(ENABLE, High)]
   \<and> line_changes (emitted initUart s) =
     [(ENABLE, Low), (RWN, Low), (RS, Low)] @ [(CS2N, High)]
     @ [(D0, High), (D1, Low), (D2, High), (D3, Low),
        (D4, High), (D5, Low), (D6, Low), (D7, Low)]
     @ [(CS2N, Low)] @ [(ENABLE, High)]"
proof -
  have b: "bit_level 0x15 0 = High" "bit_level 0x15 1 = Low" "bit_level 0x15 2 = High"
    "bit_level 0x15 3 = Low" "bit_level 0x15 4 = High" "bit_level 0x15 5 = Low"
    "bit_level 0x15 6 = Low" "bit_level 0x15 7 = Low"
    by (simp_all add: bit_level_def)
  have 1: "line_changes (emitted (writeUart v) s) = line_changes (register_write_log High v)"
    by (simp add: emitted_writeUart)
  have 2: "line_changes (emitted (writeCharToUart v) s) =
           line_changes (register_write_log High v)"
    by (simp add: emitted_writeCharToUart)
  have 3: "line_changes (emitted initMC6850 s) = line_changes (register_write_log Low 0x15)"
    by (simp add: emitted_initMC6850)
  have 4: "line_changes (emitted initUart s) = line_changes (register_write_log Low 0x15)"
    by (simp add: emitted_initUart line_changes_append line_changes_blinkLed_log)
  show ?thesis
    unfolding 1 2 3 4 line_changes_register_write
    using b by (simp add: CS2N_def CSN_def)
qed

subsection \<open>The control lines after a data-register write\<close>

text \<open>
  C10. When a data-register write returns, in either revision, enable is high, read/write
  is low, register select is high and chip select is low, whatever the value was. A line
  that is not one of the eight data lines has the same level after the write of any two
  values; directions and timer registers are as before the call. The data lines hold the
  bits of the value.
\<close>

theorem control_lines_after_data_write:
  "levels (writeUart v s) ENABLE = High \<and> levels (writeUart v s) RWN = Low
   \<and> levels (writeUart v s) RS = High \<and> levels (writeUart v s) CSN = Low
   \<and> levels (writeCharToUart v s) ENABLE = High \<and> levels (writeCharToUart v s) RWN = Low
   \<and> levels (writeCharToUart v s) RS = High \<and> levels (writeCharToUart v s) CS2N = Low
   \<and> (\<forall>p. p \<notin> set data_lines \<longrightarrow>
          levels (writeUart v s) p = levels (writeUart w s) p
          \<and> levels (writeCharToUart v s) p = levels (writeCharToUart w s) p)
   \<and> (\<forall>p. p \<notin> set data_lines \<and> p \<notin> set control_lines \<longrightarrow>
          levels (writeUart v s) p = levels s p
          \<and> levels (writeCharToUart v s) p = levels s p)
   \<and> map (levels (writeUart v s)) data_lines =
        [bit_level v 0, bit_level v 1, bit_level v 2, bit_level v 3,
         bit_level v 4, bit_level v 5, bit_level v 6, bit_level v 7]
   \<and> map (levels (writeCharToUart v s)) data_lines =
        [bit_level v 0, bit_level v 1, bit_level v 2, bit_level v 3,
         bit_level v 4, bit_level v 5, bit_level v 6, bit_level v 7]
   \<and> modes (writeUart v s) = modes s \<and> modes (writeCharToUart v s) = modes s
   \<and> TCCR2A (writeUart v s) = TCCR2A s \<and> TCCR2A (writeCharToUart v s) = TCCR2A s
   \<and> TCCR2B (writeUart v s) = TCCR2B s \<and> TCCR2B (writeCharToUart v s) = TCCR2B s
   \<and> OCR2A (writeUart v s) = OCR2A s \<and> OCR2A (writeCharToUart v s) = OCR2A s"
proof -
  have lu: "levels (writeUart x s) = replay (levels s) (register_write_log High x)" for x
    by (simp add: writeUart_performs levels_performs)
  have lc: "levels (writeCharToUart x s) = replay (levels s) (register_write_log High x)" for x
    by (simp add: writeCharToUart_performs levels_performs)
  have ctl: "replay (levels s) (register_write_log High x) ENABLE = High
     \<and> replay (levels s) (register_write_log High x) RWN = Low
     \<and> replay (levels s) (register_write_log High x) RS = High
     \<and> replay (levels s) (register_write_log High x) CSN = Low" for x
    by (simp add: replay_register_write_log pin_defs)
  have frame: "replay (levels s) (register_write_log High v) p =
               replay (levels s) (register_write_log High w) p"
    if "p \<notin> set data_lines" for p
    using that by (simp add: replay_register_write_log data_lines_def)
  have untouched: "replay (levels s) (register_write_log High v) p = levels s p"
    if "p \<notin> set data_lines \<and> p \<notin> set control_lines" for p
    using that by (simp add: replay_register_write_log data_lines_def control_lines_def)
  have dl: "map (replay (levels s) (register_write_log High v)) data_lines =
        [bit_level v 0, bit_level v 1, bit_level v 2, bit_level v 3,
         bit_level v 4, bit_level v 5, bit_level v 6, bit_level v 7]"
    by (simp add: replay_register_write_log data_lines_def pin_defs)
  have un: "modes (performs (register_write_log High v) (delay 1 s)) = modes s
     \<and> TCCR2A (performs (register_write_log High v) (delay 1 s)) = TCCR2A s
     \<and> TCCR2B (performs (register_write_log High v) (delay 1 s)) = TCCR2B s
     \<and> OCR2A (performs (register_write_log High v) (delay 1 s)) = OCR2A s"
    using unchanged_by_register_write [of High v "delay 1 s"] by (simp add: delay_def)
  have wu: "writeUart v s = performs (register_write_log High v) (delay 1 s)"
    by (simp add: writeUart_performs performs_Cons)
  show ?thesis
    unfolding lu lc
    using ctl [of v] frame untouched dl un unchanged_by_register_write [of High v s]
    by (simp add: wu writeCharToUart_performs CS2N_def CSN_def)
qed

theorem control_lines_after_data_write_witness:
  "LED_OUTPUT \<notin> set data_lines \<and> LED_OUTPUT \<notin> set control_lines
   \<and> levels (writeUart 0x54 power_on) LED_OUTPUT = levels (writeUart 0x41 power_on) LED_OUTPUT
   \<and> levels (writeCharToUart 0x54 power_on) LED_OUTPUT = levels power_on LED_OUTPUT
   \<and> levels (writeUart 0x54 power_on) ENABLE = High"
proof -
  have n: "LED_OUTPUT \<notin> set data_lines" "LED_OUTPUT \<notin> set control_lines"
    by (simp_all add: data_lines_def control_lines_def pin_defs)
  from n control_lines_after_data_write [of "0x54" power_on "0x41"]
  show ?thesis by blast
qed

subsection \<open>The configuration byte\<close>

text \<open>
  C5. Configuring the chip, in either revision, is exactly one bus cycle: a write with
  register select at the control-register level whose data lines \<open>D0\<close> .. \<open>D7\<close> carry
  high, low, high, low, high, low, low, low, the byte \<open>0b00010101\<close>. By the register
  layout the sketch documents, this byte selects clock divider 16 (bits 1:0), 8 data
  bits, no parity, 1 stop bit (bits 4:2), request-to-send low with the transmit interrupt
  disabled (bits 6:5) and the receive interrupt disabled (bit 7).
\<close>

theorem chip_configuration_byte:
  "bus_cycles (levels s) (emitted initMC6850 s) =
     [write_cycle Low [High, Low, High, Low, High, Low, Low, Low]]
   \<and> bus_cycles (levels s) (emitted initUart s) =
     [write_cycle Low [High, Low, High, Low, High, Low, Low, Low]]
   \<and> transfers (levels s) (emitted initMC6850 s) = [ControlWrite 0b00010101]
   \<and> transfers (levels s) (emitted initUart s) = [ControlWrite 0b00010101]
   \<and> decode_control 0b00010101 =
       \<lparr>divider = CLK_16, format = F_8n1, transmitter = RTS_low_TxInt_disabled,
        rx_interrupt = False\<rparr>"
proof -
  have c1: "bus_cycles (levels s) (emitted initMC6850 s) =
     [write_cycle Low [High, Low, High, Low, High, Low, Low, Low]]"
    using bus_cycles_register_write [of "levels s" Low "0x15"] bit_levels_0x15
    by (simp add: emitted_initMC6850 bus_cycles_def)
  have c2: "bus_cycles (levels s) (emitted initUart s) =
     [write_cycle Low [High, Low, High, Low, High, Low, Low, Low]]"
    using bus_cycles_register_write [of "levels s" Low "0x15"] bit_levels_0x15
    by (simp add: emitted_initUart bus_cycles_def observations_append cycles_of_append
        observations_blinkLed_log)
  have t1: "transfers (levels s) (emitted initMC6850 s) = [ControlWrite 0b00010101]"
    using transfers_register_write [of "levels s" Low "0x15"]
    by (simp add: emitted_initMC6850 transfers_def bus_cycles_def)
  have t2: "transfers (levels s) (emitted initUart s) = [ControlWrite 0b00010101]"
    using transfers_register_write [of "levels s" Low "0x15"]
    by (simp add: emitted_initUart transfers_def bus_cycles_def observations_append
        cycles_of_append observations_blinkLed_log)
  have d: "decode_control 0b00010101 =
       \<lparr>divider = CLK_16, format = F_8n1, transmitter = RTS_low_TxInt_disabled,
        rx_interrupt = False\<rparr>"
    by (simp add: decode_control_def decode_divider_def decode_format_def
        decode_transmitter_def)
  from c1 c2 t1 t2 d show ?thesis by blast
qed

subsection \<open>The transfers of start-up and one loop iteration\<close>

text \<open>
  C3. In either revision, start-up followed by one pass of the transmit loop performs
  nine register transfers: first one write to the control register, then eight writes to
  the data register carrying 0x54, 0x45, 0x53, 0x54, 0x41, 0x43, 0x49, 0x41 in this
  order, with no control-register write among them.
\<close>

theorem testacia_transfers:
  "transfers (levels s) (emitted (run 1) s) =
     [ControlWrite 0x15, DataWrite 0x54, DataWrite 0x45, DataWrite 0x53, DataWrite 0x54,
      DataWrite 0x41, DataWrite 0x43, DataWrite 0x49, DataWrite 0x41]
   \<and> transfers (levels s) (emitted (run_6850 1) s) =
     [ControlWrite 0x15, DataWrite 0x54, DataWrite 0x45, DataWrite 0x53, DataWrite 0x54,
      DataWrite 0x41, DataWrite 0x43, DataWrite 0x49, DataWrite 0x41]"
proof -
  let ?ts = "[ControlWrite 0x15, DataWrite 0x54, DataWrite 0x45, DataWrite 0x53,
      DataWrite 0x54, DataWrite 0x41, DataWrite 0x43, DataWrite 0x49, DataWrite 0x41]"
  have inj: "map Transfer xs = map Transfer ys \<Longrightarrow> xs = ys" for xs ys
    using inj_map_eq_map [of Transfer xs ys] by (simp add: inj_def)
  have 1: "map Transfer (transfers (levels s) (emitted (run 1) s)) = map Transfer ?ts"
    by (simp add: transfers_steps steps_run testString_def)
  have 2: "map Transfer (transfers (levels s) (emitted (run_6850 1) s)) = map Transfer ?ts"
    by (simp add: transfers_steps steps_run_6850 testString_def)
  from inj [OF 1] inj [OF 2] show ?thesis by simp
qed

subsection \<open>The chip is configured once, after the clock and before any data\<close>

text \<open>
  C4. In every run of either revision, observed after any number \<open>n\<close> of loop
  iterations, the timer programmings and register transfers are, in order: the three
  Timer2 registers of the clock generator, then the one write to the control register,
  then only data-register writes (the test string, \<open>n\<close> times). So the chip is
  configured exactly once, after the clock is programmed and before the first character
  is sent.
\<close>

theorem configuration_once_after_clock_before_data:
  "steps (levels s) (emitted (run n) s) =
     [ClockProgrammed Reg_TCCR2A 0x43, ClockProgrammed Reg_TCCR2B 0x09,
      ClockProgrammed Reg_OCR2A 51]
     @ [Transfer (ControlWrite 0x15)]
     @ concat (replicate n (map (\<lambda>c. Transfer (DataWrite c)) testString))
   \<and> steps (levels s) (emitted (run_6850 n) s) =
     [ClockProgrammed Reg_TCCR2A 0x43, ClockProgrammed Reg_TCCR2B 0x09,
      ClockProgrammed Reg_OCR2A 51]
     @ [Transfer (ControlWrite 0x15)]
     @ concat (replicate n (map (\<lambda>c. Transfer (DataWrite c)) testString))
   \<and> filter is_control_write (steps (levels s) (emitted (run n) s)) =
       [Transfer (ControlWrite 0x15)]
   \<and> filter is_control_write (steps (levels s) (emitted (run_6850 n) s)) =
       [Transfer (ControlWrite 0x15)]"
  by (simp add: steps_run steps_run_6850 no_control_write_in_data_transfers)

subsection \<open>The frequency of the generated clock\<close>

text \<open>
  C6. Both revisions program Timer2 with clock select 1 (no prescaling) and toggle count
  51. With a 16 MHz system clock the generated frequency is 16 MHz / 104, about
  153.85 kHz; its relative error against the ideal 16 * 9600 Hz = 153.6 kHz is 1/624,
  below 1 % and so below 2 %.
\<close>

theorem baud_clock_within_one_percent:
  "OCR2A (initBaudClock s) = 51 \<and> clock_select (TCCR2B (initBaudClock s)) = 1
   \<and> OCR2A (initClocks s) = 51 \<and> clock_select (TCCR2B (initClocks s)) = 1
   \<and> generated_clock_freq 16000000 1 (OCR2A (initBaudClock s)) = 16000000 / 104
   \<and> generated_clock_freq 16000000 1 (OCR2A (initClocks s)) = 16000000 / 104
   \<and> relative_error (generated_clock_freq 16000000 1 (OCR2A (initBaudClock s))) (16 * 9600)
       = 1 / 624
   \<and> relative_error (generated_clock_freq 16000000 1 (OCR2A (initClocks s))) (16 * 9600)
       = 1 / 624
   \<and> relative_error (generated_clock_freq 16000000 1 (OCR2A (initBaudClock s))) (16 * 9600)
       < 1 / 100
   \<and> relative_error (generated_clock_freq 16000000 1 (OCR2A (initClocks s))) (16 * 9600)
       < 1 / 100
   \<and> relative_error (generated_clock_freq 16000000 1 (OCR2A (initBaudClock s))) (16 * 9600)
       < 2 / 100
   \<and> relative_error (generated_clock_freq 16000000 1 (OCR2A (initClocks s))) (16 * 9600)
       < 2 / 100"
proof -
  have o1: "OCR2A (initBaudClock s) = 51"
    by (simp add: initBaudClock_def set_TCCR2A_def set_TCCR2B_def set_OCR2A_def)
  have o2: "OCR2A (initClocks s) = 51"
    by (simp add: initClocks_def set_TCCR2A_def set_TCCR2B_def set_OCR2A_def)
  have b1: "TCCR2B (initBaudClock s) = 9"
    by (simp add: initBaudClock_def set_TCCR2A_def set_TCCR2B_def set_OCR2A_def)
  have b2: "TCCR2B (initClocks s) = 9"
    by (simp add: initClocks_def set_TCCR2A_def set_TCCR2B_def set_OCR2A_def)
  have cs: "clock_select 9 = 1"
    by (simp add: clock_select_def)
  have f: "generated_clock_freq 16000000 1 51 = 16000000 / 104"
    by (simp add: generated_clock_freq_def)
  have e: "relative_error (16000000 / 104) (16 * 9600) = 1 / 624"
    by (simp add: relative_error_def)
  show ?thesis
    unfolding o1 o2 b1 b2 cs f e by simp
qed

subsection \<open>Directions are set once, before any transfer\<close>

text \<open>
  C7. In every run of either revision, observed after any number of loop iterations, the
  direction settings are exactly thirteen, one for each bus line (the eight data lines,
  register select, read/write, enable, clock output, chip select), each to output. They
  are the first events of the run (in the documented revision after the direction of the
  status LED), so they precede every write to a line and every register transfer, and no
  later event sets a direction. All thirteen lines are outputs at every such point.
\<close>

theorem directions_set_once_before_any_transfer:
  "pin_modes (emitted (run n) s) =
     map (\<lambda>p. (p, OUTPUT)) [D0, D1, D2, D3, D4, D5, D6, D7, RS, RWN, ENABLE, BAUDCLK, CSN]
   \<and> take 13 (emitted (run n) s) =
     map (\<lambda>p. PinMode p OUTPUT)
       [D0, D1, D2, D3, D4, D5, D6, D7, RS, RWN, ENABLE, BAUDCLK, CSN]
   \<and> pin_modes (emitted (run_6850 n) s) =
     (LED_OUTPUT, OUTPUT) #
     map (\<lambda>p. (p, OUTPUT)) [D0, D1, D2, D3, D4, D5, D6, D7, RS, RWN, ENABLE, BAUDCLK, CS2N]
   \<and> take 14 (emitted (run_6850 n) s) =
     PinMode LED_OUTPUT OUTPUT #
     map (\<lambda>p. PinMode p OUTPUT)
       [D0, D1, D2, D3, D4, D5, D6, D7, RS, RWN, ENABLE, BAUDCLK, CS2N]
   \<and> distinct [D0, D1, D2, D3, D4, D5, D6, D7, RS, RWN, ENABLE, BAUDCLK, CSN]
   \<and> set [D0, D1, D2, D3, D4, D5, D6, D7, RS, RWN, ENABLE, BAUDCLK, CSN] = set bus_lines
   \<and> map (modes (run n s)) bus_lines = replicate 13 OUTPUT
   \<and> map (modes (run_6850 n s)) bus_lines = replicate 13 OUTPUT"
proof -
  have p1: "pin_modes (emitted (run n) s) =
     map (\<lambda>p. (p, OUTPUT)) [D0, D1, D2, D3, D4, D5, D6, D7, RS, RWN, ENABLE, BAUDCLK, CSN]"
    by (simp only: emitted_run pin_modes_run)
  have p2: "pin_modes (emitted (run_6850 n) s) =
     (LED_OUTPUT, OUTPUT) #
     map (\<lambda>p. (p, OUTPUT)) [D0, D1, D2, D3, D4, D5, D6, D7, RS, RWN, ENABLE, BAUDCLK, CS2N]"
    by (simp only: emitted_run_6850 pin_modes_run_6850 CS2N_def CSN_def)
  have t1: "take 13 (emitted (run n) s) =
     map (\<lambda>p. PinMode p OUTPUT)
       [D0, D1, D2, D3, D4, D5, D6, D7, RS, RWN, ENABLE, BAUDCLK, CSN]"
    by (simp add: emitted_run setup_MC6850_log_def pins_log_def)
  have t2: "take 14 (emitted (run_6850 n) s) =
     PinMode LED_OUTPUT OUTPUT #
     map (\<lambda>p. PinMode p OUTPUT)
       [D0, D1, D2, D3, D4, D5, D6, D7, RS, RWN, ENABLE, BAUDCLK, CS2N]"
    by (simp add: emitted_run_6850 setup_6850_log_def pins_log_def CS2N_def CSN_def)
  have d: "distinct [D0, D1, D2, D3, D4, D5, D6, D7, RS, RWN, ENABLE, BAUDCLK, CSN]"
    by (simp add: pin_defs)
  have c: "set [D0, D1, D2, D3, D4, D5, D6, D7, RS, RWN, ENABLE, BAUDCLK, CSN] = set bus_lines"
    by (auto simp add: bus_lines_def data_lines_def control_lines_def)
  have m1: "map (modes (run n s)) bus_lines = replicate 13 OUTPUT"
    by (simp add: run_performs modes_performs pin_modes_run)
       (simp add: bus_lines_def data_lines_def control_lines_def pin_defs eval_nat_numeral)
  have m2: "map (modes (run_6850 n s)) bus_lines = replicate 13 OUTPUT"
    by (simp add: run_6850_performs modes_performs pin_modes_run_6850)
       (simp add: bus_lines_def data_lines_def control_lines_def pin_defs eval_nat_numeral)
  from p1 p2 t1 t2 d c m1 m2 show ?thesis by blast
qed

subsection \<open>Sending is stateless\<close>

text \<open>
  C8. What the send operation writes does not depend on the state it starts from: for
  every message, \<^verbatim>\<open>printStringToUart\<close> appends the same events to the log from any two
  states, in particular when it is called a second time right after the first. The
  same holds for a whole loop iteration of either revision. A trace lists every write to a
  line with the level written, and every delay.
\<close>

theorem send_is_stateless:
  "emitted (printStringToUart str) (printStringToUart str s) =
     emitted (printStringToUart str) s
   \<and> emitted (printStringToUart str) s' = emitted (printStringToUart str) s
   \<and> line_changes (emitted (printStringToUart str) (printStringToUart str s)) =
       line_changes (emitted (printStringToUart str) s)
   \<and> emitted loop_6850 (loop_6850 s) = emitted loop_6850 s
   \<and> emitted loop_MC6850 (loop_MC6850 s) = emitted loop_MC6850 s
   \<and> trace (printStringToUart str (printStringToUart str s)) =
       trace s @ emitted (printStringToUart str) s @ emitted (printStringToUart str) s"
  by (simp add: emitted_printStringToUart emitted_loop_6850 emitted_loop_MC6850
      printStringToUart_performs trace_performs)

end
